theory Spec2Isabelle
  imports Main
begin

section \<open>The ELB listener resource of phidata (phidata/aws/resource/elb/listener.py)\<close>

text \<open>
  The class \<open>Listener\<close> wraps the four remote operations on an elbv2 listener
  (create, describe, modify, delete). The model below follows the Python text
  statement by statement. What a method does besides returning a value is made
  explicit: every method returns its value, the updated instance (the only field
  the methods ever assign is \<open>active_resource\<close>) and the list of events it
  emitted, in order: the console and logger lines and the calls made on the
  elbv2 service client.
\<close>

subsection \<open>Python values and exceptions\<close>

text \<open>
  The values of type \<open>Any\<close> that flow through the class: responses of the remote
  API and what is read out of them. \<open>PBoundMethod n\<close> is the bound method
  \<open>self.n\<close> taken as a value (not called). A dict is an association list;
  lookup is \<open>map_of\<close>.
\<close>

datatype pyval =
    PNone
  | PBool bool
  | PInt int
  | PStr string
  | PList "pyval list"
  | PDict "(string \<times> pyval) list"
  | PBoundMethod string

text \<open>
  \<open>except ClientError\<close> catches botocore's ClientError; \<open>except Exception\<close>
  catches everything else that is raised here. AttributeError is what
  \<open>x.get(...)\<close> raises on a value that has no such attribute.
\<close>

datatype exn =
    ClientError string
  | AttributeError string
  | OtherException string

type_synonym 'a outcome = "exn + 'a"

abbreviation Raises :: "exn \<Rightarrow> 'a outcome" where
  "Raises \<equiv> Inl"

abbreviation Returns :: "'a \<Rightarrow> 'a outcome" where
  "Returns \<equiv> Inr"

text \<open>\<open>v.get(k, d)\<close>: only a dict has the method.\<close>

definition py_get :: "pyval \<Rightarrow> string \<Rightarrow> pyval \<Rightarrow> pyval outcome" where
  "py_get v k d =
     (case v of
        PDict kvs \<Rightarrow> Returns (case map_of kvs k of Some x \<Rightarrow> x | None \<Rightarrow> d)
      | _ \<Rightarrow> Raises (AttributeError ''get''))"

subsection \<open>The remote API and the events of a run\<close>

type_synonym kwargs = "(string \<times> pyval) list"

text \<open>
  The elbv2 service client. Its four operations are parameters of the model:
  for given arguments each one returns a response or raises. The first
  argument is the keyword \<open>LoadBalancerArn\<close> or \<open>ListenerArn\<close>; it is a
  \<open>pyval\<close> where the code passes a value that is not statically a string.
  Each method of the class calls each operation at most once.
\<close>

record ServiceClient =
  create_listener :: "string \<Rightarrow> kwargs \<Rightarrow> pyval outcome"
  describe_listeners :: "string \<Rightarrow> pyval outcome"
  modify_listener :: "pyval \<Rightarrow> kwargs \<Rightarrow> pyval outcome"
  delete_listener :: "pyval \<Rightarrow> pyval outcome"

record AwsApiClient =
  elbv2_client :: ServiceClient

datatype remote_call =
    CreateListener string kwargs
  | DescribeListeners string
  | ModifyListener pyval kwargs
  | DeleteListener pyval

datatype channel = print_info | print_warning | print_error | logger_error | logger_debug

text \<open>
  A log line: a plain string, or an f-string whose last part formats a
  value or an exception (\<open>f"Create Response: {create_response}"\<close>,
  \<open>print_error(e)\<close>).
\<close>

datatype message =
    Msg string
  | MsgVal string pyval
  | MsgExn string exn

datatype event =
    Log channel message
  | Call remote_call

subsection \<open>The resource\<close>

text \<open>
  The classes LoadBalancer and TargetGroup are imported, not defined in this
  file; the class uses only their method \<open>get_arn(aws_client)\<close>, which is the
  one field of the model. An instance of either class is truthy.
\<close>

datatype LoadBalancer = LoadBalancer (lb_get_arn: "AwsApiClient \<Rightarrow> string option outcome")

datatype TargetGroup = TargetGroup (tg_get_arn: "AwsApiClient \<Rightarrow> string option outcome")

record Listener =
  name :: string
  load_balancer :: "LoadBalancer option"
  target_group :: "TargetGroup option"
  load_balancer_arn :: "string option"
  protocol :: "string option"
  port :: "int option"
  ssl_policy :: "string option"
  certificates :: "(string \<times> pyval) list list option"
  default_actions :: "(string \<times> pyval) list list option"
  alpn_policy :: "string list option"
  tags :: "(string \<times> string) list list option"
  active_resource :: pyval

type_synonym 'a run = "'a \<times> Listener \<times> event list"

definition retval :: "'a run \<Rightarrow> 'a" where
  "retval r = fst r"

definition self_after :: "'a run \<Rightarrow> Listener" where
  "self_after r = fst (snd r)"

definition events :: "'a run \<Rightarrow> event list" where
  "events r = snd (snd r)"

definition remote_calls :: "event list \<Rightarrow> remote_call list" where
  "remote_calls evs = concat (map (\<lambda>e. case e of Call c \<Rightarrow> [c] | Log _ _ \<Rightarrow> []) evs)"

text \<open>
  Modelled from the spec: the base class AwsResource is not in the source. Its
  \<open>get_resource_type()\<close> and \<open>get_resource_name()\<close> give the class attribute
  \<open>resource_type\<close> and the field \<open>name\<close> (used only for display), and
  \<open>get_service_client(aws_client)\<close> gives the handle of the remote API.
\<close>

definition resource_type :: string where
  "resource_type = ''Listener''"

definition get_resource_type :: "Listener \<Rightarrow> string" where
  "get_resource_type s = resource_type"

definition get_resource_name :: "Listener \<Rightarrow> string" where
  "get_resource_name s = name s"

definition get_service_client :: "Listener \<Rightarrow> AwsApiClient \<Rightarrow> ServiceClient" where
  "get_service_client s c = elbv2_client c"

text \<open>The typed optional fields as the values placed in the request.\<close>

definition dicts_val :: "(string \<times> pyval) list list \<Rightarrow> pyval" where
  "dicts_val ds = PList (map PDict ds)"

definition strs_val :: "string list \<Rightarrow> pyval" where
  "strs_val xs = PList (map PStr xs)"

definition tags_val :: "(string \<times> string) list list \<Rightarrow> pyval" where
  "tags_val ts = PList (map (\<lambda>d. PDict (map (\<lambda>(k, v). (k, PStr v)) d)) ts)"

text \<open>\<open>if x is not None: not_null_args[k] = x\<close>, on a dict that has no key \<open>k\<close> yet.\<close>

definition set_if_not_none :: "string \<Rightarrow> pyval option \<Rightarrow> kwargs \<Rightarrow> kwargs" where
  "set_if_not_none k x args = (case x of None \<Rightarrow> args | Some v \<Rightarrow> args @ [(k, v)])"

subsection \<open>get_load_balancer_arn\<close>

definition get_load_balancer_arn :: "Listener \<Rightarrow> AwsApiClient \<Rightarrow> string option outcome" where
  "get_load_balancer_arn s c =
     (case load_balancer_arn s of
        Some a \<Rightarrow> Returns (Some a)
      | None \<Rightarrow>
         (case load_balancer s of
            Some lb \<Rightarrow> lb_get_arn lb c
          | None \<Rightarrow> Returns None))"

subsection \<open>_read\<close>

text \<open>
  The two handlers of the \<open>try\<close> in \<open>_read\<close>; after either the method goes on
  to \<open>return self.active_resource\<close>.
\<close>

definition read_except :: "Listener \<Rightarrow> exn \<Rightarrow> event list" where
  "read_except s e =
     (case e of
        ClientError m \<Rightarrow> [Log logger_debug (MsgExn ''ClientError: '' e)]
      | _ \<Rightarrow> [Log print_error (Msg (''Error reading '' @ get_resource_type s @ ''.'')),
              Log print_error (MsgExn [] e)])"

definition Listener_read :: "Listener \<Rightarrow> AwsApiClient \<Rightarrow> pyval run" where
  "Listener_read s c =
     (let ev0 = [Log logger_debug
                   (Msg (''Reading '' @ get_resource_type s @ '': '' @ get_resource_name s))];
          service_client = get_service_client s c
      in case get_load_balancer_arn s c of
           Raises e \<Rightarrow> (active_resource s, s, ev0 @ read_except s e)
         | Returns None \<Rightarrow> (PNone, s, ev0)
         | Returns (Some lb_arn) \<Rightarrow>
            (let ev1 = ev0 @ [Call (DescribeListeners lb_arn)]
             in case describe_listeners service_client lb_arn of
                  Raises e \<Rightarrow> (active_resource s, s, ev1 @ read_except s e)
                | Returns describe_response \<Rightarrow>
                   (let ev2 = ev1 @ [Log logger_debug
                                       (MsgVal ''Describe Response: '' describe_response)]
                    in case py_get describe_response ''Listeners'' PNone of
                         Raises e \<Rightarrow> (active_resource s, s, ev2 @ read_except s e)
                       | Returns resource_list \<Rightarrow>
                          (case resource_list of
                             PList xs \<Rightarrow>
                               (let s' = s\<lparr>active_resource :=
                                             (if length xs > 0 then xs ! 0 else PNone)\<rparr>
                                in (active_resource s', s', ev2))
                           | _ \<Rightarrow> (active_resource s, s, ev2)))))"

subsection \<open>get_arn\<close>

definition get_arn :: "Listener \<Rightarrow> AwsApiClient \<Rightarrow> pyval outcome run" where
  "get_arn s c =
     (case Listener_read s c of
        (listener, s', ev) \<Rightarrow>
          if listener = PNone then (Returns PNone, s', ev)
          else (py_get listener ''ListenerArn'' PNone, s', ev))"

subsection \<open>_create\<close>

text \<open>The \<open>try\<close> block of \<open>_create\<close> and the \<open>return False\<close> after it.\<close>

definition create_try ::
    "Listener \<Rightarrow> ServiceClient \<Rightarrow> string \<Rightarrow> kwargs \<Rightarrow> event list \<Rightarrow> bool outcome run" where
  "create_try s service_client lb_arn not_null_args ev =
     (let handler = (\<lambda>e. [Log print_error (Msg (get_resource_type s @ '' could not be created.'')),
                          Log print_error (MsgExn [] e)]);
          ev1 = ev @ [Call (CreateListener lb_arn not_null_args)]
      in case create_listener service_client lb_arn not_null_args of
           Raises e \<Rightarrow> (Returns False, s, ev1 @ handler e)
         | Returns create_response \<Rightarrow>
            (let ev2 = ev1 @ [Log logger_debug (MsgVal ''Create Response: '' create_response)]
             in case py_get create_response ''Listeners'' (PDict []) of
                  Raises e \<Rightarrow> (Returns False, s, ev2 @ handler e)
                | Returns resource_dict \<Rightarrow>
                   if resource_dict \<noteq> PNone
                   then (Returns True, s\<lparr>active_resource := create_response\<rparr>,
                         ev2 @ [Log print_info (Msg (''Listener created: '' @ get_resource_name s))])
                   else (Returns False, s, ev2)))"

definition create_args :: "Listener \<Rightarrow> kwargs" where
  "create_args s =
     (set_if_not_none ''Tags'' (map_option tags_val (tags s))
     (set_if_not_none ''AlpnPolicy'' (map_option strs_val (alpn_policy s))
     (set_if_not_none ''Certificates'' (map_option dicts_val (certificates s))
     (set_if_not_none ''SslPolicy'' (map_option PStr (ssl_policy s))
     (set_if_not_none ''Port'' (map_option PInt (port s))
     (set_if_not_none ''Protocol'' (map_option PStr (protocol s)) []))))))"

definition Listener_create :: "Listener \<Rightarrow> AwsApiClient \<Rightarrow> bool outcome run" where
  "Listener_create s c =
     (let ev0 = [Log print_info
                   (Msg (''Creating '' @ get_resource_type s @ '': '' @ get_resource_name s))]
      in case get_load_balancer_arn s c of
           Raises e \<Rightarrow> (Raises e, s, ev0)
         | Returns None \<Rightarrow>
            (Returns True, s, ev0 @ [Log logger_error (Msg ''Load balancer ARN not available'')])
         | Returns (Some lb_arn) \<Rightarrow>
            (let not_null_args = create_args s
             in case default_actions s of
                  Some da \<Rightarrow>
                    create_try s (get_service_client s c) lb_arn
                      (not_null_args @ [(''DefaultActions'', dicts_val da)]) ev0
                | None \<Rightarrow>
                   (case target_group s of
                      Some tg \<Rightarrow>
                        (case tg_get_arn tg c of
                           Raises e \<Rightarrow> (Raises e, s, ev0)
                         | Returns None \<Rightarrow>
                            (Returns False, s,
                             ev0 @ [Log logger_error (Msg ''Target group ARN not available'')])
                         | Returns (Some target_group_arn) \<Rightarrow>
                            create_try s (get_service_client s c) lb_arn
                              (not_null_args @
                                 [(''DefaultActions'',
                                   PList [PDict [(''Type'', PStr ''forward''),
                                                 (''TargetGroupArn'', PStr target_group_arn)]])])
                              ev0)
                    | None \<Rightarrow>
                       (Returns True, s,
                        ev0 @ [Log print_warning
                                 (Msg (''Neither target group nor default actions provided for ''
                                       @ get_resource_name s))]))))"

subsection \<open>_delete\<close>

definition delete_except :: "Listener \<Rightarrow> exn \<Rightarrow> event list" where
  "delete_except s e =
     [Log print_error (Msg (get_resource_type s @ '' could not be deleted.'')),
      Log print_error (Msg ''Please try again or delete resources manually.''),
      Log print_error (MsgExn [] e)]"

definition Listener_delete :: "Listener \<Rightarrow> AwsApiClient \<Rightarrow> bool run" where
  "Listener_delete s c =
     (let ev0 = [Log print_info
                   (Msg (''Deleting '' @ get_resource_type s @ '': '' @ get_resource_name s))];
          service_client = get_service_client s c;
          s1 = s\<lparr>active_resource := PNone\<rparr>
      in case get_arn s1 c of
           (r, s2, ev) \<Rightarrow>
             (let ev1 = ev0 @ ev
              in case r of
                   Raises e \<Rightarrow> (False, s2, ev1 @ delete_except s2 e)
                 | Returns listener_arn \<Rightarrow>
                    if listener_arn = PNone
                    then (True, s2,
                          ev1 @ [Log print_error
                                   (Msg (''Listener '' @ get_resource_name s2 @ '' not found.''))])
                    else
                      (let ev2 = ev1 @ [Call (DeleteListener listener_arn)]
                       in case delete_listener service_client listener_arn of
                            Raises e \<Rightarrow> (False, s2, ev2 @ delete_except s2 e)
                          | Returns delete_response \<Rightarrow>
                             (True, s2,
                              ev2 @ [Log logger_debug (MsgVal ''Delete Response: '' delete_response),
                                     Log print_info
                                       (Msg (get_resource_type s2 @ '': '' @ get_resource_name s2
                                             @ '' deleted''))]))))"

subsection \<open>_update\<close>

definition update_args :: "Listener \<Rightarrow> kwargs" where
  "update_args s =
     (set_if_not_none ''AlpnPolicy'' (map_option strs_val (alpn_policy s))
     (set_if_not_none ''DefaultActions'' (map_option dicts_val (default_actions s))
     (set_if_not_none ''Certificates'' (map_option dicts_val (certificates s))
     (set_if_not_none ''SslPolicy'' (map_option PStr (ssl_policy s))
     (set_if_not_none ''Port'' (map_option PInt (port s))
     (set_if_not_none ''Protocol'' (map_option PStr (protocol s)) []))))))"

text \<open>
  The source reads \<open>listener_arn = self.get_arn\<close>, with no call: the variable
  holds the bound method, and that is what \<open>is None\<close> tests and what goes out
  as \<open>ListenerArn\<close>.
\<close>

definition Listener_update :: "Listener \<Rightarrow> AwsApiClient \<Rightarrow> bool run" where
  "Listener_update s c =
     (let ev0 = [Log print_info
                   (Msg (''Updating '' @ get_resource_type s @ '': '' @ get_resource_name s))];
          listener_arn = PBoundMethod ''get_arn''
      in if listener_arn = PNone
         then (True, s,
               ev0 @ [Log print_error (Msg (''Listener '' @ get_resource_name s @ '' not found.''))])
         else
           (let not_null_args = update_args s;
                service_client = get_service_client s c;
                handler = (\<lambda>e. [Log print_error
                                   (Msg (get_resource_type s @ '' could not be created.'')),
                                 Log print_error (MsgExn [] e)]);
                ev1 = ev0 @ [Call (ModifyListener listener_arn not_null_args)]
            in case modify_listener service_client listener_arn not_null_args of
                 Raises e \<Rightarrow> (False, s, ev1 @ handler e)
               | Returns create_response \<Rightarrow>
                  (let ev2 = ev1 @ [Log logger_debug
                                      (MsgVal ''Update Response: '' create_response)]
                   in case py_get create_response ''Listeners'' (PDict []) of
                        Raises e \<Rightarrow> (False, s, ev2 @ handler e)
                      | Returns resource_dict \<Rightarrow>
                         if resource_dict \<noteq> PNone
                         then (True, s\<lparr>active_resource := create_response\<rparr>,
                               ev2 @ [Log print_info
                                        (Msg (''Listener updated: '' @ get_resource_name s))])
                         else (False, s, ev2))))"

subsection \<open>Concrete instances\<close>

text \<open>
  A remote that answers each of the four operations with one fixed outcome,
  whatever the arguments, and a listener for load balancer \<open>lb-1\<close> on port 443
  with nothing cached. \<open>listener_80\<close> and \<open>listener_443\<close> are listeners as the
  remote reports them. \<open>detached_listener\<close> has no load balancer at all.
\<close>

definition stub_remote ::
    "pyval outcome \<Rightarrow> pyval outcome \<Rightarrow> pyval outcome \<Rightarrow> pyval outcome \<Rightarrow> AwsApiClient" where
  "stub_remote cr de mo dl =
     \<lparr>elbv2_client =
        \<lparr>create_listener = (\<lambda>_ _. cr),
         describe_listeners = (\<lambda>_. de),
         modify_listener = (\<lambda>_ _. mo),
         delete_listener = (\<lambda>_. dl)\<rparr>\<rparr>"

definition unused :: "pyval outcome" where
  "unused = Raises (OtherException ''unused'')"

definition web_listener :: Listener where
  "web_listener =
     \<lparr>name = ''web'', load_balancer = None, target_group = None,
      load_balancer_arn = Some ''lb-1'', protocol = Some ''HTTPS'', port = Some 443,
      ssl_policy = None, certificates = None, default_actions = None,
      alpn_policy = None, tags = None, active_resource = PNone\<rparr>"

definition detached_listener :: Listener where
  "detached_listener = web_listener\<lparr>load_balancer_arn := None\<rparr>"

definition listener_80 :: pyval where
  "listener_80 =
     PDict [(''ListenerArn'', PStr ''arn-80''), (''Port'', PInt 80), (''Protocol'', PStr ''HTTP'')]"

definition listener_443 :: pyval where
  "listener_443 =
     PDict [(''ListenerArn'', PStr ''arn-443''), (''Port'', PInt 443), (''Protocol'', PStr ''HTTPS'')]"

definition forward_to :: "string \<Rightarrow> TargetGroup" where
  "forward_to a = TargetGroup (\<lambda>_. Returns (Some a))"

definition unresolved_target_group :: TargetGroup where
  "unresolved_target_group = TargetGroup (\<lambda>_. Returns None)"

definition fixed_response :: "(string \<times> pyval) list" where
  "fixed_response = [(''Type'', PStr ''fixed-response'')]"

text \<open>The first line every run of \<open>_create\<close> prints.\<close>

abbreviation creating :: "Listener \<Rightarrow> event list" where
  "creating s \<equiv>
     [Log print_info (Msg (''Creating '' @ get_resource_type s @ '': '' @ get_resource_name s))]"

section \<open>Properties\<close>

subsection \<open>Runs and their remote calls\<close>

lemma run_simps [simp]:
  "retval (r, s, ev) = r"
  "self_after (r, s, ev) = s"
  "events (r, s, ev) = ev"
  by (simp_all add: retval_def self_after_def events_def)

lemma remote_calls_simps [simp]:
  "remote_calls [] = []"
  "remote_calls (Log ch m # evs) = remote_calls evs"
  "remote_calls (Call x # evs) = x # remote_calls evs"
  "remote_calls (evs @ evs') = remote_calls evs @ remote_calls evs'"
  by (simp_all add: remote_calls_def)


lemma get_load_balancer_arn_port_protocol:
  "get_load_balancer_arn (s\<lparr>port := p, protocol := q\<rparr>) c = get_load_balancer_arn s c"
  by (simp add: get_load_balancer_arn_def split: option.splits)

lemma get_load_balancer_arn_web [simp]:
  "get_load_balancer_arn (web_listener\<lparr>active_resource := a\<rparr>) c = Returns (Some ''lb-1'')"
  "get_load_balancer_arn web_listener c = Returns (Some ''lb-1'')"
  by (simp_all add: get_load_balancer_arn_def web_listener_def)

lemma stub_remote_simps [simp]:
  "create_listener (get_service_client s (stub_remote cr de mo dl)) a k = cr"
  "describe_listeners (get_service_client s (stub_remote cr de mo dl)) a = de"
  "modify_listener (get_service_client s (stub_remote cr de mo dl)) v k = mo"
  "delete_listener (get_service_client s (stub_remote cr de mo dl)) v = dl"
  by (simp_all add: get_service_client_def stub_remote_def)

lemma create_args_web [simp]:
  "create_args (web_listener\<lparr>default_actions := d, target_group := t\<rparr>)
     = [(''Protocol'', PStr ''HTTPS''), (''Port'', PInt 443)]"
  by (simp add: create_args_def set_if_not_none_def web_listener_def)

subsection \<open>read\<close>

text \<open>The runs of \<open>_read\<close> once the load-balancer ARN has resolved, by what the remote does.\<close>

lemma Listener_read_found:
  assumes "get_load_balancer_arn s c = Returns (Some lb_arn)"
      and "describe_listeners (get_service_client s c) lb_arn = Returns (PDict resp)"
      and "map_of resp ''Listeners'' = Some (PList (l # ls))"
  shows "Listener_read s c =
           (l, s\<lparr>active_resource := l\<rparr>,
            [Log logger_debug
               (Msg (''Reading '' @ get_resource_type s @ '': '' @ get_resource_name s)),
             Call (DescribeListeners lb_arn),
             Log logger_debug (MsgVal ''Describe Response: '' (PDict resp))])"
  using assms by (simp add: Listener_read_def py_get_def Let_def)

lemma Listener_read_empty:
  assumes "get_load_balancer_arn s c = Returns (Some lb_arn)"
      and "describe_listeners (get_service_client s c) lb_arn = Returns (PDict resp)"
      and "map_of resp ''Listeners'' = Some (PList [])"
  shows "retval (Listener_read s c) = PNone
       \<and> self_after (Listener_read s c) = s\<lparr>active_resource := PNone\<rparr>"
  using assms by (simp add: Listener_read_def py_get_def Let_def)

lemma Listener_read_absent:
  assumes "get_load_balancer_arn s c = Returns (Some lb_arn)"
      and "describe_listeners (get_service_client s c) lb_arn = Returns (PDict resp)"
      and "map_of resp ''Listeners'' = None"
  shows "retval (Listener_read s c) = active_resource s \<and> self_after (Listener_read s c) = s"
  using assms by (simp add: Listener_read_def py_get_def Let_def)

lemma Listener_read_remote_raises:
  assumes "get_load_balancer_arn s c = Returns (Some lb_arn)"
      and "describe_listeners (get_service_client s c) lb_arn = Raises e"
  shows "Listener_read s c =
           (active_resource s, s,
            [Log logger_debug
               (Msg (''Reading '' @ get_resource_type s @ '': '' @ get_resource_name s)),
             Call (DescribeListeners lb_arn)] @ read_except s e)"
  using assms by (simp add: Listener_read_def Let_def)

lemma remote_calls_read:
  "DeleteListener a \<notin> set (remote_calls (events (Listener_read s c)))"
  by (simp add: Listener_read_def Let_def read_except_def
           split: sum.splits option.splits pyval.splits exn.splits)

text \<open>
  C8. When the load-balancer ARN resolves and the describe operation returns the
  listeners \<open>l1, l2, ...\<close>, \<open>_read\<close> returns \<open>l1\<close> (and caches it), whatever the
  port and protocol configured on the instance and whatever \<open>l1\<close> is.
\<close>

theorem read_first_element:
  assumes "get_load_balancer_arn s c = Returns (Some lb_arn)"
      and "describe_listeners (get_service_client s c) lb_arn = Returns (PDict resp)"
      and "map_of resp ''Listeners'' = Some (PList (l1 # ls))"
  shows "retval (Listener_read (s\<lparr>port := p, protocol := q\<rparr>) c) = l1
       \<and> active_resource (self_after (Listener_read (s\<lparr>port := p, protocol := q\<rparr>) c)) = l1"
proof -
  let ?s = "s\<lparr>port := p, protocol := q\<rparr>"
  have a: "get_load_balancer_arn ?s c = Returns (Some lb_arn)"
    using assms(1) by (simp add: get_load_balancer_arn_port_protocol)
  have b: "describe_listeners (get_service_client ?s c) lb_arn = Returns (PDict resp)"
    using assms(2) by (simp add: get_service_client_def)
  show ?thesis
    by (simp add: Listener_read_found [OF a b assms(3)])
qed

text \<open>
  The instance is configured for port 443; the remote lists the port-80 listener
  first, and that one is returned.
\<close>

theorem read_first_element_witness:
  "port web_listener = Some 443
   \<and> retval (Listener_read (web_listener\<lparr>port := Some 443, protocol := Some ''HTTPS''\<rparr>)
              (stub_remote unused
                 (Returns (PDict [(''Listeners'', PList [listener_80, listener_443])]))
                 unused unused))
       = listener_80"
proof -
  let ?c = "stub_remote unused
              (Returns (PDict [(''Listeners'', PList [listener_80, listener_443])]))
              unused unused"
  have a: "get_load_balancer_arn web_listener ?c = Returns (Some ''lb-1'')"
    by simp
  have b: "describe_listeners (get_service_client web_listener ?c) ''lb-1''
             = Returns (PDict [(''Listeners'', PList [listener_80, listener_443])])"
    by simp
  have d: "map_of [(''Listeners'', PList [listener_80, listener_443])] ''Listeners''
             = Some (PList (listener_80 # [listener_443]))"
    by simp
  from read_first_element [OF a b d] show ?thesis
    by (simp add: web_listener_def)
qed

text \<open>
  C2, as stated, fails on an empty collection: with \<open>listener_443\<close> cached and the
  remote reporting \<open>{"Listeners": []}\<close>, \<open>_read\<close> returns \<open>None\<close>, not the cached
  record.
\<close>

theorem read_empty_collection_counterexample:
  "retval (Listener_read (web_listener\<lparr>active_resource := listener_443\<rparr>)
             (stub_remote unused (Returns (PDict [(''Listeners'', PList [])])) unused unused))
     = PNone
   \<and> active_resource (web_listener\<lparr>active_resource := listener_443\<rparr>) \<noteq> PNone"
  by (simp add: Listener_read_def py_get_def Let_def listener_443_def)

text \<open>
  C2 (amended). When the load-balancer ARN resolves and the describe operation
  returns a response: if its listener collection is non-empty, \<open>_read\<close> caches and
  returns the first record; if the collection is empty, \<open>_read\<close> clears the cache
  and returns \<open>None\<close>; if the response has no collection, \<open>_read\<close> returns the
  previously cached value and leaves the instance unchanged.
\<close>

theorem read_cache_policy:
  assumes "get_load_balancer_arn s c = Returns (Some lb_arn)"
      and "describe_listeners (get_service_client s c) lb_arn = Returns (PDict resp)"
  shows "(\<forall>l ls. map_of resp ''Listeners'' = Some (PList (l # ls)) \<longrightarrow>
            retval (Listener_read s c) = l
            \<and> self_after (Listener_read s c) = s\<lparr>active_resource := l\<rparr>)
       \<and> (map_of resp ''Listeners'' = Some (PList []) \<longrightarrow>
            retval (Listener_read s c) = PNone
            \<and> self_after (Listener_read s c) = s\<lparr>active_resource := PNone\<rparr>)
       \<and> (map_of resp ''Listeners'' = None \<longrightarrow>
            retval (Listener_read s c) = active_resource s
            \<and> self_after (Listener_read s c) = s)"
  using Listener_read_found [OF assms] Listener_read_empty [OF assms]
    Listener_read_absent [OF assms]
  by simp

theorem read_cache_policy_witness:
  "retval (Listener_read (web_listener\<lparr>active_resource := listener_443\<rparr>)
             (stub_remote unused (Returns (PDict [(''Listeners'', PList [listener_80])]))
                unused unused))
     = listener_80
   \<and> retval (Listener_read (web_listener\<lparr>active_resource := listener_443\<rparr>)
             (stub_remote unused (Returns (PDict [(''Listeners'', PList [])])) unused unused))
     = PNone
   \<and> retval (Listener_read (web_listener\<lparr>active_resource := listener_443\<rparr>)
             (stub_remote unused (Returns (PDict [])) unused unused))
     = listener_443"
proof -
  let ?s = "web_listener\<lparr>active_resource := listener_443\<rparr>"
  have lb: "\<And>c. get_load_balancer_arn ?s c = Returns (Some ''lb-1'')"
    by simp
  have d: "\<And>r. describe_listeners
                  (get_service_client ?s (stub_remote unused (Returns (PDict r)) unused unused))
                  ''lb-1''
                = Returns (PDict r)"
    by simp
  from read_cache_policy [OF lb d, of "[(''Listeners'', PList [listener_80])]"]
       read_cache_policy [OF lb d, of "[(''Listeners'', PList [])]"]
       read_cache_policy [OF lb d, of "[]"]
  show ?thesis by simp
qed

text \<open>
  C4, as stated, fails when something is cached: after a ClientError and after
  any other exception of the describe operation alike, \<open>_read\<close> returns the cached
  record \<open>listener_443\<close>, not \<open>None\<close>.
\<close>

theorem read_remote_error_counterexample:
  "retval (Listener_read (web_listener\<lparr>active_resource := listener_443\<rparr>)
             (stub_remote unused (Raises (ClientError ''ListenerNotFound'')) unused unused))
     = listener_443
   \<and> retval (Listener_read (web_listener\<lparr>active_resource := listener_443\<rparr>)
             (stub_remote unused (Raises (OtherException ''EndpointConnectionError''))
                unused unused))
     = listener_443
   \<and> listener_443 \<noteq> PNone"
  by (simp add: Listener_read_def Let_def listener_443_def)

text \<open>
  C4 (amended). When the describe operation raises, \<open>_read\<close> raises nothing,
  leaves the instance unchanged and returns the previously cached active resource
  (which is \<open>None\<close> only if nothing was cached). A ClientError leaves one
  debug-level logger line and no error line; any other exception is printed on
  the error channel, in two lines.
\<close>

theorem read_remote_error:
  assumes "get_load_balancer_arn s c = Returns (Some lb_arn)"
      and "describe_listeners (get_service_client s c) lb_arn = Raises e"
  shows "retval (Listener_read s c) = active_resource s
       \<and> self_after (Listener_read s c) = s
       \<and> (\<forall>m. e = ClientError m \<longrightarrow>
            events (Listener_read s c) =
              [Log logger_debug
                 (Msg (''Reading '' @ get_resource_type s @ '': '' @ get_resource_name s)),
               Call (DescribeListeners lb_arn),
               Log logger_debug (MsgExn ''ClientError: '' e)])
       \<and> ((\<forall>m. e \<noteq> ClientError m) \<longrightarrow>
            events (Listener_read s c) =
              [Log logger_debug
                 (Msg (''Reading '' @ get_resource_type s @ '': '' @ get_resource_name s)),
               Call (DescribeListeners lb_arn),
               Log print_error (Msg (''Error reading '' @ get_resource_type s @ ''.'')),
               Log print_error (MsgExn [] e)])"
  by (cases e) (simp_all add: Listener_read_remote_raises [OF assms] read_except_def)

theorem read_remote_error_witness:
  "retval (Listener_read (web_listener\<lparr>active_resource := listener_443\<rparr>)
             (stub_remote unused (Raises (ClientError ''ListenerNotFound'')) unused unused))
     = listener_443
   \<and> events (Listener_read (web_listener\<lparr>active_resource := listener_443\<rparr>)
             (stub_remote unused (Raises (ClientError ''ListenerNotFound'')) unused unused))
     = [Log logger_debug (Msg ''Reading Listener: web''),
        Call (DescribeListeners ''lb-1''),
        Log logger_debug (MsgExn ''ClientError: '' (ClientError ''ListenerNotFound''))]
   \<and> events (Listener_read (web_listener\<lparr>active_resource := listener_443\<rparr>)
             (stub_remote unused (Raises (OtherException ''EndpointConnectionError''))
                unused unused))
     = [Log logger_debug (Msg ''Reading Listener: web''),
        Call (DescribeListeners ''lb-1''),
        Log print_error (Msg ''Error reading Listener.''),
        Log print_error (MsgExn [] (OtherException ''EndpointConnectionError''))]"
proof -
  let ?s = "web_listener\<lparr>active_resource := listener_443\<rparr>"
  have lb: "\<And>c. get_load_balancer_arn ?s c = Returns (Some ''lb-1'')"
    by simp
  have d: "\<And>e. describe_listeners
                  (get_service_client ?s (stub_remote unused (Raises e) unused unused)) ''lb-1''
                = Raises e"
    by simp
  from read_remote_error [OF lb d, of "ClientError ''ListenerNotFound''"]
       read_remote_error [OF lb d, of "OtherException ''EndpointConnectionError''"]
  show ?thesis
    by (simp add: get_resource_type_def resource_type_def get_resource_name_def web_listener_def)
qed

subsection \<open>create\<close>

text \<open>The remote calls of the \<open>try\<close> block: the one create call, whatever its outcome.\<close>

lemma remote_calls_create_try:
  "remote_calls (events (create_try s svc a k ev)) = remote_calls ev @ [CreateListener a k]"
  by (simp add: create_try_def Let_def split: sum.splits)

text \<open>The five ways through \<open>_create\<close> when no collaborator raises.\<close>

lemma Listener_create_no_load_balancer:
  assumes "get_load_balancer_arn s c = Returns None"
  shows "Listener_create s c =
           (Returns True, s,
            creating s @ [Log logger_error (Msg ''Load balancer ARN not available'')])"
  using assms by (simp add: Listener_create_def Let_def)

lemma Listener_create_default_actions:
  assumes "get_load_balancer_arn s c = Returns (Some lb_arn)"
      and "default_actions s = Some da"
  shows "Listener_create s c =
           create_try s (get_service_client s c) lb_arn
             (create_args s @ [(''DefaultActions'', dicts_val da)]) (creating s)"
  using assms by (simp add: Listener_create_def Let_def)

lemma Listener_create_target_group:
  assumes "get_load_balancer_arn s c = Returns (Some lb_arn)"
      and "default_actions s = None"
      and "target_group s = Some tg"
      and "tg_get_arn tg c = Returns (Some tg_arn)"
  shows "Listener_create s c =
           create_try s (get_service_client s c) lb_arn
             (create_args s @
                [(''DefaultActions'',
                  PList [PDict [(''Type'', PStr ''forward''), (''TargetGroupArn'', PStr tg_arn)]])])
             (creating s)"
  using assms by (simp add: Listener_create_def Let_def)

lemma Listener_create_no_target_group_arn:
  assumes "get_load_balancer_arn s c = Returns (Some lb_arn)"
      and "default_actions s = None"
      and "target_group s = Some tg"
      and "tg_get_arn tg c = Returns None"
  shows "Listener_create s c =
           (Returns False, s,
            creating s @ [Log logger_error (Msg ''Target group ARN not available'')])"
  using assms by (simp add: Listener_create_def Let_def)

lemma Listener_create_no_actions:
  assumes "get_load_balancer_arn s c = Returns (Some lb_arn)"
      and "default_actions s = None"
      and "target_group s = None"
  shows "Listener_create s c =
           (Returns True, s,
            creating s @
              [Log print_warning
                 (Msg (''Neither target group nor default actions provided for ''
                       @ get_resource_name s))])"
  using assms by (simp add: Listener_create_def Let_def)





text \<open>
  C5. With the load-balancer ARN resolved, \<open>_create\<close> picks the routing actions in
  this order: if \<open>default_actions\<close> is set, the one remote call made is the create
  call carrying it as \<open>DefaultActions\<close>; otherwise, if \<open>target_group\<close> is set and
  its ARN resolves, the create call carries the single action
  \<open>{"Type": "forward", "TargetGroupArn": arn}\<close>; otherwise \<open>_create\<close> prints a
  warning, makes no remote call and returns \<open>True\<close>.
\<close>

theorem create_routing_priority:
  assumes "get_load_balancer_arn s c = Returns (Some lb_arn)"
  shows "(\<forall>da. default_actions s = Some da \<longrightarrow>
            remote_calls (events (Listener_create s c)) =
              [CreateListener lb_arn (create_args s @ [(''DefaultActions'', dicts_val da)])])
       \<and> (\<forall>tg tg_arn. default_actions s = None \<and> target_group s = Some tg
              \<and> tg_get_arn tg c = Returns (Some tg_arn) \<longrightarrow>
            remote_calls (events (Listener_create s c)) =
              [CreateListener lb_arn
                 (create_args s @
                    [(''DefaultActions'',
                      PList [PDict [(''Type'', PStr ''forward''),
                                    (''TargetGroupArn'', PStr tg_arn)]])])])
       \<and> (default_actions s = None \<and> target_group s = None \<longrightarrow>
            retval (Listener_create s c) = Returns True
            \<and> remote_calls (events (Listener_create s c)) = []
            \<and> self_after (Listener_create s c) = s
            \<and> Log print_warning
                 (Msg (''Neither target group nor default actions provided for ''
                       @ get_resource_name s))
               \<in> set (events (Listener_create s c)))"
proof (intro conjI allI impI)
  fix da assume "default_actions s = Some da"
  from Listener_create_default_actions [OF assms this]
  show "remote_calls (events (Listener_create s c)) =
          [CreateListener lb_arn (create_args s @ [(''DefaultActions'', dicts_val da)])]"
    by (simp add: remote_calls_create_try)
next
  fix tg tg_arn
  assume "default_actions s = None \<and> target_group s = Some tg
            \<and> tg_get_arn tg c = Returns (Some tg_arn)"
  then have "Listener_create s c =
           create_try s (get_service_client s c) lb_arn
             (create_args s @
                [(''DefaultActions'',
                  PList [PDict [(''Type'', PStr ''forward''), (''TargetGroupArn'', PStr tg_arn)]])])
             (creating s)"
    using Listener_create_target_group [OF assms] by blast
  then show "remote_calls (events (Listener_create s c)) =
              [CreateListener lb_arn
                 (create_args s @
                    [(''DefaultActions'',
                      PList [PDict [(''Type'', PStr ''forward''),
                                    (''TargetGroupArn'', PStr tg_arn)]])])]"
    by (simp add: remote_calls_create_try)
next
  assume h: "default_actions s = None \<and> target_group s = None"
  then have e: "Listener_create s c =
           (Returns True, s,
            creating s @
              [Log print_warning
                 (Msg (''Neither target group nor default actions provided for ''
                       @ get_resource_name s))])"
    using Listener_create_no_actions [OF assms] by blast
  show "retval (Listener_create s c) = Returns True" by (simp add: e)
  show "remote_calls (events (Listener_create s c)) = []" by (simp add: e)
  show "self_after (Listener_create s c) = s" by (simp add: e)
  show "Log print_warning
          (Msg (''Neither target group nor default actions provided for '' @ get_resource_name s))
        \<in> set (events (Listener_create s c))" by (simp add: e)
qed

text \<open>
  With both fields set the configured actions go out, not a forward action; with
  only the target group, the forward action; with neither, nothing.
\<close>

theorem create_routing_priority_witness:
  "remote_calls (events (Listener_create
      (web_listener\<lparr>default_actions := Some [fixed_response],
                     target_group := Some (forward_to ''tg-1'')\<rparr>)
      (stub_remote (Returns (PDict [(''Listeners'', PList [listener_443])])) unused unused unused)))
    = [CreateListener ''lb-1''
         [(''Protocol'', PStr ''HTTPS''), (''Port'', PInt 443),
          (''DefaultActions'', PList [PDict [(''Type'', PStr ''fixed-response'')]])]]
   \<and> remote_calls (events (Listener_create
      (web_listener\<lparr>default_actions := None, target_group := Some (forward_to ''tg-1'')\<rparr>)
      (stub_remote (Returns (PDict [(''Listeners'', PList [listener_443])])) unused unused unused)))
    = [CreateListener ''lb-1''
         [(''Protocol'', PStr ''HTTPS''), (''Port'', PInt 443),
          (''DefaultActions'',
           PList [PDict [(''Type'', PStr ''forward''), (''TargetGroupArn'', PStr ''tg-1'')]])]]
   \<and> retval (Listener_create
      (web_listener\<lparr>default_actions := None, target_group := None\<rparr>)
      (stub_remote (Returns (PDict [(''Listeners'', PList [listener_443])])) unused unused unused))
    = Returns True
   \<and> remote_calls (events (Listener_create
      (web_listener\<lparr>default_actions := None, target_group := None\<rparr>)
      (stub_remote (Returns (PDict [(''Listeners'', PList [listener_443])])) unused unused unused)))
    = []"
proof -
  let ?c = "stub_remote (Returns (PDict [(''Listeners'', PList [listener_443])]))
              unused unused unused"
  have lb: "\<And>d t. get_load_balancer_arn
                    (web_listener\<lparr>default_actions := d, target_group := t\<rparr>) ?c
                  = Returns (Some ''lb-1'')"
    by (simp add: get_load_balancer_arn_def web_listener_def)
  from create_routing_priority
         [OF lb [where d = "Some [fixed_response]" and t = "Some (forward_to ''tg-1'')"]]
       create_routing_priority [OF lb [where d = None and t = "Some (forward_to ''tg-1'')"]]
       create_routing_priority [OF lb [where d = None and t = None]]
  show ?thesis
    by (simp add: forward_to_def fixed_response_def dicts_val_def)
qed

text \<open>
  C9. With the load-balancer ARN resolved, \<open>default_actions\<close> unset and
  \<open>target_group\<close> set, if the target group's ARN does not resolve then \<open>_create\<close>
  returns \<open>False\<close>, makes no remote call and leaves the instance unchanged;
  the same instance without any load balancer returns \<open>True\<close>.
\<close>

theorem create_target_group_unresolvable:
  assumes "get_load_balancer_arn s c = Returns (Some lb_arn)"
      and "default_actions s = None"
      and "target_group s = Some tg"
      and "tg_get_arn tg c = Returns None"
  shows "retval (Listener_create s c) = Returns False
       \<and> remote_calls (events (Listener_create s c)) = []
       \<and> self_after (Listener_create s c) = s
       \<and> retval (Listener_create (s\<lparr>load_balancer := None, load_balancer_arn := None\<rparr>) c)
           = Returns True"
proof -
  have "get_load_balancer_arn (s\<lparr>load_balancer := None, load_balancer_arn := None\<rparr>) c
          = Returns None"
    by (simp add: get_load_balancer_arn_def)
  from Listener_create_no_load_balancer [OF this] Listener_create_no_target_group_arn [OF assms]
  show ?thesis
    by simp
qed

theorem create_target_group_unresolvable_witness:
  "retval (Listener_create (web_listener\<lparr>target_group := Some unresolved_target_group\<rparr>)
             (stub_remote (Returns (PDict [(''Listeners'', PList [listener_443])]))
                unused unused unused))
     = Returns False
   \<and> remote_calls (events
        (Listener_create (web_listener\<lparr>target_group := Some unresolved_target_group\<rparr>)
           (stub_remote (Returns (PDict [(''Listeners'', PList [listener_443])]))
              unused unused unused)))
     = []"
proof -
  let ?s = "web_listener\<lparr>target_group := Some unresolved_target_group\<rparr>"
  let ?c = "stub_remote (Returns (PDict [(''Listeners'', PList [listener_443])]))
              unused unused unused"
  have lb: "get_load_balancer_arn ?s ?c = Returns (Some ''lb-1'')"
    by (simp add: get_load_balancer_arn_def web_listener_def)
  have da: "default_actions ?s = None"
    by (simp add: web_listener_def)
  have tg: "target_group ?s = Some unresolved_target_group"
    by simp
  have ta: "tg_get_arn unresolved_target_group ?c = Returns None"
    by (simp add: unresolved_target_group_def)
  from create_target_group_unresolvable [OF lb da tg ta] show ?thesis
    by simp
qed




subsection \<open>delete\<close>

lemma remote_calls_get_arn:
  "DeleteListener a \<notin> set (remote_calls (events (get_arn s c)))"
  using remote_calls_read [of a s c]
  by (cases "Listener_read s c") (simp add: get_arn_def)

lemma Listener_delete_unresolved:
  assumes "retval (get_arn (s\<lparr>active_resource := PNone\<rparr>) c) = Returns PNone"
  shows "retval (Listener_delete s c) = True
       \<and> remote_calls (events (Listener_delete s c))
           = remote_calls (events (get_arn (s\<lparr>active_resource := PNone\<rparr>) c))"
  using assms
  by (cases "get_arn (s\<lparr>active_resource := PNone\<rparr>) c")
     (simp add: Listener_delete_def Let_def)

text \<open>
  What \<open>_delete\<close> leaves in the cache is what the \<open>_read\<close> inside \<open>get_arn\<close>
  left there, starting from the cleared cache.
\<close>

lemma delete_cache_is_reads:
  "self_after (Listener_delete s c)
     = self_after (Listener_read (s\<lparr>active_resource := PNone\<rparr>) c)"
  by (cases "Listener_read (s\<lparr>active_resource := PNone\<rparr>) c")
     (simp add: Listener_delete_def get_arn_def Let_def split: sum.splits)

text \<open>
  C6. If the load-balancer ARN does not resolve, \<open>_create\<close> returns \<open>True\<close> and
  makes no remote call. If the listener ARN does not resolve (\<open>get_arn\<close>, called
  by \<open>_delete\<close> on the instance with its cache cleared, returns \<open>None\<close>),
  \<open>_delete\<close> returns \<open>True\<close> and makes no delete call.
\<close>

theorem unresolvable_reference_is_success:
  "(get_load_balancer_arn s c = Returns None \<longrightarrow>
      retval (Listener_create s c) = Returns True
      \<and> remote_calls (events (Listener_create s c)) = [])
   \<and> (retval (get_arn (s\<lparr>active_resource := PNone\<rparr>) c) = Returns PNone \<longrightarrow>
      retval (Listener_delete s c) = True
      \<and> (\<forall>a. DeleteListener a \<notin> set (remote_calls (events (Listener_delete s c)))))"
proof (intro conjI impI)
  assume "get_load_balancer_arn s c = Returns None"
  from Listener_create_no_load_balancer [OF this]
  show "retval (Listener_create s c) = Returns True"
    and "remote_calls (events (Listener_create s c)) = []"
    by simp_all
next
  assume h: "retval (get_arn (s\<lparr>active_resource := PNone\<rparr>) c) = Returns PNone"
  from Listener_delete_unresolved [OF h]
  show "retval (Listener_delete s c) = True"
    and "\<forall>a. DeleteListener a \<notin> set (remote_calls (events (Listener_delete s c)))"
    by (simp_all add: remote_calls_get_arn)
qed

text \<open>
  A listener without load balancer is created to no effect; a listener whose load
  balancer has no listeners is deleted to no effect.
\<close>

theorem unresolvable_reference_is_success_witness:
  "retval (Listener_create detached_listener (stub_remote unused unused unused unused))
     = Returns True
   \<and> remote_calls (events
        (Listener_create detached_listener (stub_remote unused unused unused unused))) = []
   \<and> retval (Listener_delete (web_listener\<lparr>active_resource := listener_443\<rparr>)
          (stub_remote unused (Returns (PDict [(''Listeners'', PList [])])) unused
             (Returns (PDict []))))
   \<and> DeleteListener (PStr ''arn-443'') \<notin> set (remote_calls (events
         (Listener_delete (web_listener\<lparr>active_resource := listener_443\<rparr>)
          (stub_remote unused (Returns (PDict [(''Listeners'', PList [])])) unused
             (Returns (PDict []))))))"
proof -
  have a: "get_load_balancer_arn detached_listener (stub_remote unused unused unused unused)
             = Returns None"
    by (simp add: get_load_balancer_arn_def detached_listener_def web_listener_def)
  have b: "retval (get_arn
                     (web_listener\<lparr>active_resource := listener_443, active_resource := PNone\<rparr>)
                     (stub_remote unused (Returns (PDict [(''Listeners'', PList [])])) unused
                        (Returns (PDict []))))
           = Returns PNone"
    by (simp add: get_arn_def Listener_read_def Let_def py_get_def)
  from unresolvable_reference_is_success
         [of detached_listener "stub_remote unused unused unused unused"]
       unresolvable_reference_is_success
         [of "web_listener\<lparr>active_resource := listener_443\<rparr>"
             "stub_remote unused (Returns (PDict [(''Listeners'', PList [])])) unused
                (Returns (PDict []))"]
       a b
  show ?thesis by simp
qed

text \<open>
  C3 does not hold of the code. \<open>_delete\<close> clears the cache and then resolves the
  ARN through \<open>_read\<close>, which caches the listener it finds: on a load balancer
  that has the listener, \<open>_delete\<close> issues the delete call, returns \<open>True\<close>, and
  the cache holds the record of the listener just deleted.
\<close>

theorem delete_leaves_cache_populated:
  "retval (Listener_delete web_listener
             (stub_remote unused (Returns (PDict [(''Listeners'', PList [listener_443])]))
                unused (Returns (PDict []))))
     = True
   \<and> remote_calls (events (Listener_delete web_listener
             (stub_remote unused (Returns (PDict [(''Listeners'', PList [listener_443])]))
                unused (Returns (PDict [])))))
     = [DescribeListeners ''lb-1'', DeleteListener (PStr ''arn-443'')]
   \<and> active_resource (self_after (Listener_delete web_listener
             (stub_remote unused (Returns (PDict [(''Listeners'', PList [listener_443])]))
                unused (Returns (PDict [])))))
     = listener_443
   \<and> listener_443 \<noteq> PNone"
  by (simp add: Listener_delete_def get_arn_def Listener_read_def Let_def py_get_def
        listener_443_def)

subsection \<open>update\<close>

text \<open>
  Every run of \<open>_update\<close> makes exactly one remote call: the modify call, with the
  bound method as \<open>ListenerArn\<close>. It never describes.
\<close>

lemma update_always_modifies:
  "remote_calls (events (Listener_update s c))
     = [ModifyListener (PBoundMethod ''get_arn'') (update_args s)]"
  by (simp add: Listener_update_def Let_def split: sum.splits)


text \<open>
  C1 does not hold of the code. On a listener with no load balancer, for which
  \<open>get_arn\<close> returns \<open>None\<close>, \<open>_update\<close> does not read, sends the modify call with
  the bound method \<open>self.get_arn\<close> as \<open>ListenerArn\<close>, and returns \<open>False\<close> when the
  remote rejects it.
\<close>

theorem update_without_listener_arn:
  "retval (get_arn detached_listener
             (stub_remote unused unused (Raises (OtherException ''ParamValidationError'')) unused))
     = Returns PNone
   \<and> Listener_update detached_listener
        (stub_remote unused unused (Raises (OtherException ''ParamValidationError'')) unused)
     = (False, detached_listener,
        [Log print_info (Msg ''Updating Listener: web''),
         Call (ModifyListener (PBoundMethod ''get_arn'')
                 [(''Protocol'', PStr ''HTTPS''), (''Port'', PInt 443)]),
         Log print_error (Msg ''Listener could not be created.''),
         Log print_error (MsgExn [] (OtherException ''ParamValidationError''))])"
  by (simp add: get_arn_def Listener_read_def Listener_update_def Let_def
        get_load_balancer_arn_def detached_listener_def web_listener_def update_args_def
        set_if_not_none_def get_resource_type_def resource_type_def get_resource_name_def)

subsection \<open>The shape of the cache\<close>



end
